theory Spec2Isabelle
  imports Complex_Main "HOL-Library.Char_ord" "HOL-Library.List_Lexorder" "HOL-Library.Multiset"
begin

section \<open>Python strings and formatting\<close>

text \<open>
  Python strings are modelled as \<open>string\<close> (lists of characters) ordered
  lexicographically by character code, which is the order \<open>sorted\<close> uses on \<open>str\<close>
  keys. \<open>len\<close> is \<open>length\<close> (the two agree on ASCII text).
\<close>

definition NL :: string where
  "NL = [CHR 0x0A]"

text \<open>\<open>sep.join(xs)\<close>\<close>

fun join :: "string \<Rightarrow> string list \<Rightarrow> string" where
  "join sep [] = []"
| "join sep [x] = x"
| "join sep (x # y # ys) = x @ sep @ join sep (y # ys)"

text \<open>\<open>' ' * n\<close>: the empty string for \<open>n \<le> 0\<close>.\<close>

definition spaces :: "int \<Rightarrow> string" where
  "spaces n = replicate (nat n) (CHR '' '')"

definition digit_char :: "nat \<Rightarrow> char" where
  "digit_char d = char_of (48 + d)"

fun digits :: "nat \<Rightarrow> string" where
  "digits n = (if n < 10 then [digit_char n] else digits (n div 10) @ [digit_char (n mod 10)])"

declare digits.simps [simp del]

text \<open>\<open>str(n)\<close> for an integer, as \<open>'{}'.format(n)\<close> and f-strings print it.\<close>

definition str_int :: "int \<Rightarrow> string" where
  "str_int n = (if n < 0 then CHR ''-'' # digits (nat (- n)) else digits (nat n))"

definition zfill :: "nat \<Rightarrow> string \<Rightarrow> string" where
  "zfill w s = replicate (w - length s) (CHR ''0'') @ s"

text \<open>\<open>'{:04d}'.format(n)\<close>: the sign counts in the width of four.\<close>

definition format_04d :: "int \<Rightarrow> string" where
  "format_04d n =
     (if n < 0 then CHR ''-'' # zfill 3 (digits (nat (- n))) else zfill 4 (digits (nat n)))"

text \<open>
  \<open>tmpl.format(...)\<close> with one placeholder \<open>ph\<close> (\<open>{}\<close>, \<open>{pkg}\<close>, \<open>{grp}\<close>): each
  occurrence of the placeholder is replaced by the argument, and a template without
  the placeholder is returned as it is. The templates come from the translation
  catalogue and the colorizer, which are taken to add no brace of their own.
\<close>

fun format_ph :: "string \<Rightarrow> string \<Rightarrow> string \<Rightarrow> string" where
  "format_ph ph arg [] = []"
| "format_ph ph arg (c # cs) =
     (if ph \<noteq> [] \<and> take (length ph) (c # cs) = ph
      then arg @ format_ph ph arg (drop (length ph - 1) cs)
      else c # format_ph ph arg cs)"

text \<open>\<open>'{}'.format(x)\<close> for an optional string: \<open>None\<close> prints as \<open>None\<close>.\<close>

definition str_opt :: "string option \<Rightarrow> string" where
  "str_opt v = (case v of None \<Rightarrow> ''None'' | Some s \<Rightarrow> s)"

text \<open>\<open>v or ''\<close>\<close>

definition or_empty :: "string option \<Rightarrow> string" where
  "or_empty v = (case v of None \<Rightarrow> [] | Some s \<Rightarrow> s)"

text \<open>Truth value of an optional string: \<open>None\<close> and \<open>''\<close> are false.\<close>

definition truthy :: "string option \<Rightarrow> bool" where
  "truthy v = (or_empty v \<noteq> [])"

section \<open>Errors\<close>

datatype error = TypeError

definition bind_err :: "error + 'a \<Rightarrow> ('a \<Rightarrow> error + 'b) \<Rightarrow> error + 'b" where
  "bind_err r f = (case r of Inl e \<Rightarrow> Inl e | Inr x \<Rightarrow> f x)"

text \<open>A list comprehension over a fallible function stops at the first raise.\<close>

fun sequence_err :: "(error + 'a) list \<Rightarrow> error + 'a list" where
  "sequence_err [] = Inr []"
| "sequence_err (r # rs) =
     (case r of Inl e \<Rightarrow> Inl e
      | Inr x \<Rightarrow> (case sequence_err rs of Inl e \<Rightarrow> Inl e | Inr xs \<Rightarrow> Inr (x # xs)))"

section \<open>Data model\<close>

text \<open>
  \<open>InstallInfo\<close> as \<open>pretty_format\<close> reads it. \<open>required_by\<close> holds
  \<open>p.package.name\<close> of each requiring record and \<open>provided_by\<close> holds \<open>p.name\<close> of
  each provider; an absent list is the empty list.
\<close>

record InstallInfo =
  name :: string
  current_version :: "string option"
  new_version :: "string option"
  repository :: "string option"
  description :: "string option"
  devel_pkg_age_days :: "int option"
  required_by :: "string list"
  provided_by :: "string list"
  members_of :: "string list"
  replaces :: "string list"

text \<open>
  The collaborators imported from the other modules of the package (\<open>pprint\<close>,
  \<open>i18n\<close>, \<open>version\<close>, \<open>config\<close>, \<open>args\<close>) are parameters of the model:
  \<open>color_line line color_number reset\<close>, \<open>bold_line\<close>, the terminal width, \<open>_\<close>
  (\<open>gettext\<close>) and \<open>_n\<close> (\<open>ngettext\<close>), \<open>format_paragraph\<close>, the two
  version functions, the three configured color numbers, the \<open>UpgradeSorting\<close> and
  \<open>AlwaysShowPkgOrigin\<close> settings and the \<open>quiet\<close> flag of the command line.
  So are the floating-point numbers of Python, the type \<open>'d\<close>:
  \<open>float_value\<close> is the number a finite float denotes (floats are compared, with
  each other and with integers, by that number), \<open>float_add_int x n\<close> is the float
  \<open>x + n\<close> and \<open>int_mul_float n x\<close> the float \<open>n * x\<close>, both rounded as
  the machine rounds them, \<open>float_str\<close> is \<open>'{}'.format\<close> and \<open>float_2f\<close> is
  \<open>'{:.2f}'.format\<close> on a float. Not-a-number, the infinities and an integer too
  large to be converted to a float are left out. \<open>format_date\<close> is
  \<open>datetime.fromtimestamp(t).strftime('%Y/%m/%d')\<close>.
\<close>

record 'd env =
  color_line :: "string \<Rightarrow> nat \<Rightarrow> bool \<Rightarrow> string"
  bold_line :: "string \<Rightarrow> string"
  get_term_width :: int
  gettext :: "string \<Rightarrow> string"
  ngettext :: "string \<Rightarrow> string \<Rightarrow> nat \<Rightarrow> string"
  format_paragraph :: "string \<Rightarrow> string"
  get_common_version :: "string \<Rightarrow> string \<Rightarrow> string \<times> int"
  get_version_diff :: "string \<Rightarrow> string \<Rightarrow> string"
  color_Version :: nat
  color_VersionDiffOld :: nat
  color_VersionDiffNew :: nat
  UpgradeSorting :: string
  AlwaysShowPkgOrigin :: bool
  quiet :: bool
  float_value :: "'d \<Rightarrow> real"
  float_add_int :: "'d \<Rightarrow> int \<Rightarrow> 'd"
  int_mul_float :: "int \<Rightarrow> 'd \<Rightarrow> 'd"
  float_str :: "'d \<Rightarrow> string"
  float_2f :: "'d \<Rightarrow> string"
  format_date :: "int \<Rightarrow> string"

definition GROUP_COLOR :: nat where
  "GROUP_COLOR = 4"

definition REPLACEMENTS_COLOR :: nat where
  "REPLACEMENTS_COLOR = 14"

section \<open>The local colorizers\<close>

text \<open>
  \<open>_color_line\<close> and \<open>_bold_line\<close> are \<open>color_line\<close> and \<open>bold_line\<close> when
  \<open>color\<close> is set. Otherwise they are \<open>lambda line, *args: line\<close> and
  \<open>lambda line: line\<close>: the first takes positional arguments only, so the calls
  that pass \<open>reset=False\<close> by keyword raise \<open>TypeError\<close>.
\<close>

definition local_color_line :: "'d env \<Rightarrow> bool \<Rightarrow> string \<Rightarrow> nat \<Rightarrow> string" where
  "local_color_line e color line n = (if color then color_line e line n True else line)"

definition local_color_line_noreset :: "'d env \<Rightarrow> bool \<Rightarrow> string \<Rightarrow> nat \<Rightarrow> error + string" where
  "local_color_line_noreset e color line n =
     (if color then Inr (color_line e line n False) else Inl TypeError)"

definition local_bold_line :: "'d env \<Rightarrow> bool \<Rightarrow> string \<Rightarrow> string" where
  "local_bold_line e color line = (if color then bold_line e line else line)"

section \<open>pretty_format: one line of the upgrade report\<close>

text \<open>The named fields that \<open>pretty_format\<close> passes to \<open>.format\<close>.\<close>

record line_fields =
  f_pkg_name :: string
  f_days_old :: string
  f_current_version :: string
  f_new_version :: string
  f_version_separator :: string
  f_spacing :: string
  f_spacing2 :: string
  f_verbose :: string

text \<open>
  A line template is kept in parsed form: literal text and named placeholders. The
  empty template string is the empty list.
\<close>

datatype placeholder =
  P_pkg_name | P_days_old | P_current_version | P_new_version
  | P_version_separator | P_spacing | P_spacing2 | P_verbose

datatype piece = Lit string | Sub placeholder

fun field_of :: "line_fields \<Rightarrow> placeholder \<Rightarrow> string" where
  "field_of f P_pkg_name = f_pkg_name f"
| "field_of f P_days_old = f_days_old f"
| "field_of f P_current_version = f_current_version f"
| "field_of f P_new_version = f_new_version f"
| "field_of f P_version_separator = f_version_separator f"
| "field_of f P_spacing = f_spacing f"
| "field_of f P_spacing2 = f_spacing2 f"
| "field_of f P_verbose = f_verbose f"

fun render_piece :: "line_fields \<Rightarrow> piece \<Rightarrow> string" where
  "render_piece f (Lit s) = s"
| "render_piece f (Sub p) = field_of f p"

definition render_template :: "piece list \<Rightarrow> line_fields \<Rightarrow> string" where
  "render_template t f = concat (map (render_piece f) t)"

text \<open>The default template of lines 178 to 180.\<close>

definition default_template :: "piece list" where
  "default_template =
     [Lit '' '', Sub P_pkg_name, Sub P_spacing,
      Lit '' '', Sub P_current_version, Sub P_spacing2, Sub P_version_separator,
      Sub P_new_version, Sub P_days_old, Sub P_verbose]"

text \<open>\<open>template or (...)\<close>\<close>

definition template_or_default :: "piece list option \<Rightarrow> piece list" where
  "template_or_default t =
     (case t of None \<Rightarrow> default_template
      | Some ps \<Rightarrow> if ps = [] then default_template else ps)"

text \<open>
  \<open>min(int(get_term_width() / 2.5), 37)\<close>: \<open>int\<close> truncates towards zero. The
  quotient is taken exactly; the floating-point division gives the same integer
  for every width a terminal can report.
\<close>

definition column_width :: "'d env \<Rightarrow> int" where
  "column_width e =
     min (if 0 \<le> get_term_width e then (2 * get_term_width e) div 5
          else - ((2 * (- get_term_width e)) div 5)) 37"

text \<open>Lines 96 to 107: the sort key.\<close>

definition sort_by :: "'d env \<Rightarrow> InstallInfo \<Rightarrow> string" where
  "sort_by e pkg_update =
     (let diff_weight = snd (get_common_version e
             (or_empty (current_version pkg_update)) (or_empty (new_version pkg_update)));
          sort_by = format_04d (9999 - diff_weight) @ name pkg_update;
          user_chosen_sorting = UpgradeSorting e
      in if user_chosen_sorting = ''pkgname'' then name pkg_update
         else if user_chosen_sorting = ''repo''
              then str_opt (repository pkg_update) @ name pkg_update
         else sort_by)"

text \<open>Lines 112 to 114.\<close>

definition days_old :: "'d env \<Rightarrow> InstallInfo \<Rightarrow> string" where
  "days_old e pkg_update =
     (case devel_pkg_age_days pkg_update of
        None \<Rightarrow> []
      | Some d \<Rightarrow> if d = 0 then []
                  else '' '' @ format_ph ''{}'' (str_int d) (gettext e ''({} days old)''))"

text \<open>
  Lines 109 to 128: the bold name with its origin prefix, and its visible length.
  Each of the following steps takes and returns the pair \<open>(pkg_name, pkg_len)\<close>.
\<close>

definition name_with_origin :: "'d env \<Rightarrow> bool \<Rightarrow> bool \<Rightarrow> bool \<Rightarrow> InstallInfo \<Rightarrow> string \<times> int" where
  "name_with_origin e color print_repo verbose pkg_update =
     (let pkg_name = local_bold_line e color (name pkg_update);
          pkg_len = int (length (name pkg_update))
      in if (print_repo \<or> verbose) \<and> truthy (repository pkg_update)
         then (local_color_line e color (or_empty (repository pkg_update) @ ''/'') 13 @ pkg_name,
               pkg_len + (int (length (or_empty (repository pkg_update))) + 1))
         else if print_repo
         then (local_color_line e color ''aur/'' 9 @ pkg_name, pkg_len + int (length ''aur/''))
         else (pkg_name, pkg_len))"

text \<open>Lines 130 to 145.\<close>

definition add_required_by :: "'d env \<Rightarrow> bool \<Rightarrow> InstallInfo \<Rightarrow> string \<times> int \<Rightarrow> error + string \<times> int" where
  "add_required_by e color pkg_update st =
     (case st of (pkg_name, pkg_len) \<Rightarrow>
      if required_by pkg_update \<noteq> [] then
        (let required_by_plain = '' ('' @ format_ph ''{pkg}''
                 (join '', '' (required_by pkg_update)) (gettext e ''for {pkg}'') @ '')'';
             pkg_len = pkg_len + int (length required_by_plain);
             dep_color = 3
         in bind_err (local_color_line_noreset e color [] dep_color) (\<lambda>tail.
              Inr (pkg_name @
                   format_ph ''{}''
                     (format_ph ''{pkg}''
                        (join (local_color_line e color '', '' dep_color)
                           (map (\<lambda>p. local_color_line e color p (dep_color + 8))
                              (required_by pkg_update)) @ tail)
                        (gettext e ''for {pkg}''))
                     (local_color_line e color '' ({})'' dep_color),
                   pkg_len)))
      else Inr (pkg_name, pkg_len))"

text \<open>Lines 146 to 151.\<close>

definition add_provided_by :: "'d env \<Rightarrow> bool \<Rightarrow> InstallInfo \<Rightarrow> string \<times> int \<Rightarrow> string \<times> int" where
  "add_provided_by e color pkg_update st =
     (case st of (pkg_name, pkg_len) \<Rightarrow>
      if provided_by pkg_update \<noteq> [] then
        (let provided_by_plain = '' ('' @ join '' # '' (provided_by pkg_update) @ '')''
         in (pkg_name @ local_color_line e color provided_by_plain 2,
             pkg_len + int (length provided_by_plain)))
      else (pkg_name, pkg_len))"

text \<open>Lines 152 to 166.\<close>

definition add_members_of :: "'d env \<Rightarrow> bool \<Rightarrow> InstallInfo \<Rightarrow> string \<times> int \<Rightarrow> error + string \<times> int" where
  "add_members_of e color pkg_update st =
     (case st of (pkg_name, pkg_len) \<Rightarrow>
      if members_of pkg_update \<noteq> [] then
        (let label = ngettext e ''{grp} group'' ''{grp} groups'' (length (members_of pkg_update));
             members_of_plain = '' ('' @ format_ph ''{grp}''
                 (join '', '' (members_of pkg_update)) label @ '')'';
             pkg_len = pkg_len + int (length members_of_plain)
         in bind_err (local_color_line_noreset e color [] GROUP_COLOR) (\<lambda>tail.
              Inr (pkg_name @
                   local_color_line e color
                     (format_ph ''{}''
                        (format_ph ''{grp}''
                           (join (local_color_line e color '', '' GROUP_COLOR)
                              (map (\<lambda>g. local_color_line e color g (GROUP_COLOR + 8))
                                 (members_of pkg_update)) @ tail)
                           label)
                        (local_color_line e color '' ({})'' GROUP_COLOR))
                     GROUP_COLOR,
                   pkg_len)))
      else Inr (pkg_name, pkg_len))"

text \<open>Lines 167 to 174.\<close>

definition add_replaces :: "'d env \<Rightarrow> bool \<Rightarrow> InstallInfo \<Rightarrow> string \<times> int \<Rightarrow> string \<times> int" where
  "add_replaces e color pkg_update st =
     (case st of (pkg_name, pkg_len) \<Rightarrow>
      if replaces pkg_update \<noteq> [] then
        (let replaces_plain = '' (replaces '' @ join '', '' (replaces pkg_update) @ '')'';
             pkg_len = pkg_len + int (length replaces_plain);
             pkg_name = pkg_name @ local_color_line e color replaces_plain REPLACEMENTS_COLOR
         in if \<not> color then (''# '' @ pkg_name, pkg_len) else (pkg_name, pkg_len))
      else (pkg_name, pkg_len))"

text \<open>Lines 109 to 166 together: the name as it stands before line 167.\<close>

definition name_before_replaces ::
  "'d env \<Rightarrow> bool \<Rightarrow> bool \<Rightarrow> bool \<Rightarrow> InstallInfo \<Rightarrow> error + string \<times> int" where
  "name_before_replaces e color print_repo verbose pkg_update =
     bind_err (add_required_by e color pkg_update
                 (name_with_origin e color print_repo verbose pkg_update)) (\<lambda>st.
     add_members_of e color pkg_update (add_provided_by e color pkg_update st))"

text \<open>Lines 109 to 174 together.\<close>

definition decorated_name :: "'d env \<Rightarrow> bool \<Rightarrow> bool \<Rightarrow> bool \<Rightarrow> InstallInfo \<Rightarrow> error + string \<times> int" where
  "decorated_name e color print_repo verbose pkg_update =
     bind_err (name_before_replaces e color print_repo verbose pkg_update) (\<lambda>st.
       Inr (add_replaces e color pkg_update st))"

text \<open>Lines 182 to 210: the keyword arguments of \<open>.format\<close>.\<close>

definition pretty_format_fields ::
  "'d env \<Rightarrow> bool \<Rightarrow> bool \<Rightarrow> bool \<Rightarrow> InstallInfo \<Rightarrow> error + line_fields" where
  "pretty_format_fields e verbose print_repo color pkg_update =
     (let common_version = fst (get_common_version e
             (or_empty (current_version pkg_update)) (or_empty (new_version pkg_update)));
          version_color = color_Version e;
          old_color = color_VersionDiffOld e;
          new_color = color_VersionDiffNew e;
          column_width = column_width e
      in bind_err (decorated_name e color print_repo verbose pkg_update) (\<lambda>(pkg_name, pkg_len).
           Inr \<lparr> f_pkg_name = pkg_name,
                 f_days_old = days_old e pkg_update,
                 f_current_version =
                   local_color_line e color common_version version_color @
                   local_color_line e color
                     (get_version_diff e (or_empty (current_version pkg_update)) common_version)
                     old_color,
                 f_new_version =
                   local_color_line e color common_version version_color @
                   local_color_line e color
                     (get_version_diff e (or_empty (new_version pkg_update)) common_version)
                     new_color,
                 f_version_separator =
                   (if truthy (current_version pkg_update) \<or> truthy (new_version pkg_update)
                    then '' -> '' else []),
                 f_spacing = spaces (max 1 (column_width - pkg_len)),
                 f_spacing2 = spaces (max 1
                    (column_width - 18
                     - int (length (or_empty (current_version pkg_update)))
                     - max (- 1) (pkg_len - column_width))),
                 f_verbose =
                   (if \<not> (verbose \<and> truthy (description pkg_update)) then []
                    else NL @ format_paragraph e (or_empty (description pkg_update))) \<rparr>))"

text \<open>\<open>pretty_format\<close>: the rendered line and its sort key.\<close>

definition pretty_format ::
  "'d env \<Rightarrow> bool \<Rightarrow> bool \<Rightarrow> bool \<Rightarrow> piece list option \<Rightarrow> InstallInfo \<Rightarrow> error + string \<times> string" where
  "pretty_format e verbose print_repo color template pkg_update =
     bind_err (pretty_format_fields e verbose print_repo color pkg_update) (\<lambda>f.
       Inr (render_template (template_or_default template) f, sort_by e pkg_update))"

text \<open>
  Lines 213 to 221: \<open>sorted\<close> is stable and ascending in the key, as
  \<open>sort_key\<close> is.
\<close>

definition pretty_format_upgradeable ::
  "'d env \<Rightarrow> InstallInfo list \<Rightarrow> bool \<Rightarrow> bool \<Rightarrow> bool \<Rightarrow> piece list option \<Rightarrow> error + string" where
  "pretty_format_upgradeable e packages_updates verbose print_repo color template =
     bind_err (sequence_err (map (pretty_format e verbose print_repo color template)
                               packages_updates)) (\<lambda>pairs.
       Inr (join NL (map fst (sort_key snd pairs))))"

section \<open>pretty_format_sysupgrade: the composite report\<close>








text \<open>Lines 360 and 361.\<close>

definition pretty_format_repo_name :: "'d env \<Rightarrow> string \<Rightarrow> string" where
  "pretty_format_repo_name e repo_name =
     color_line e (repo_name @ ''/'') (length repo_name mod 5 + 10) True"

section \<open>print_package_search_results\<close>

text \<open>
  A search result is an \<open>AURPackageInfo\<close> or a \<open>pyalpm.Package\<close>.
  \<open>numvotes\<close> and \<open>popularity\<close> hold what the AUR answer held: nothing, an
  integer or a float. \<open>db_name\<close> is \<open>package.db.name\<close>.
\<close>

datatype 'd py_number = PyNone | PyInt int | PyFloat 'd

record 'd AURPackageInfo =
  aur_name :: string
  aur_version :: string
  aur_desc :: string
  aur_groups :: "string list"
  numvotes :: "'d py_number"
  popularity :: "'d py_number"
  outofdate :: "int option"

record Package =
  alpm_name :: string
  alpm_version :: string
  alpm_desc :: string
  alpm_groups :: "string list"
  db_name :: string

datatype 'd AnyPackage = Aur "'d AURPackageInfo" | Alpm Package

fun package_name :: "'d AnyPackage \<Rightarrow> string" where
  "package_name (Aur p) = aur_name p"
| "package_name (Alpm p) = alpm_name p"

fun package_version :: "'d AnyPackage \<Rightarrow> string" where
  "package_version (Aur p) = aur_version p"
| "package_version (Alpm p) = alpm_version p"

fun package_desc :: "'d AnyPackage \<Rightarrow> string" where
  "package_desc (Aur p) = aur_desc p"
| "package_desc (Alpm p) = alpm_desc p"

fun package_groups :: "'d AnyPackage \<Rightarrow> string list" where
  "package_groups (Aur p) = aur_groups p"
| "package_groups (Alpm p) = alpm_groups p"

text \<open>
  Lines 418 to 425. The key is computed when \<open>numvotes\<close> is an \<open>int\<close> and
  \<open>popularity\<close> is a \<open>float\<close>: \<open>numvotes + 1\<close> is an integer sum,
  \<open>popularity + 1\<close> a float sum and their product a float product. The keys, floats
  and the integer 1, are compared as the numbers they denote.
\<close>

fun get_sort_key :: "'d env \<Rightarrow> 'd AnyPackage \<Rightarrow> real" where
  "get_sort_key e (Aur p) =
     (case (numvotes p, popularity p) of
        (PyInt v, PyFloat q) \<Rightarrow>
          float_value e (int_mul_float e (v + 1) (float_add_int e q 1))
      | _ \<Rightarrow> 1)"
| "get_sort_key e (Alpm p) = 1"

text \<open>
  \<open>sorted(packages, key=get_sort_key, reverse=True)\<close>: a reversed sort keeps
  records with equal keys in their input order, as if the list were reversed, sorted
  stably in ascending order and reversed again.
\<close>

definition sorted_packages :: "'d env \<Rightarrow> 'd AnyPackage list \<Rightarrow> 'd AnyPackage list" where
  "sorted_packages e packages = rev (sort_key (get_sort_key e) (rev packages))"

text \<open>Line 413: the default of \<open>enumerate_from\<close>.\<close>

definition default_enumerate_from :: int where
  "default_enumerate_from = 0"

text \<open>Lines 440 to 442.\<close>

definition idx_prefix :: "'d env \<Rightarrow> bool \<Rightarrow> int \<Rightarrow> nat \<Rightarrow> string" where
  "idx_prefix e enumerated enumerate_from pkg_idx =
     (if enumerated then bold_line e (str_int (int pkg_idx + enumerate_from) @ '') '') else [])"

text \<open>Lines 444 to 446.\<close>

fun repo_marker :: "'d env \<Rightarrow> 'd AnyPackage \<Rightarrow> string" where
  "repo_marker e (Alpm p) = pretty_format_repo_name e (db_name p)"
| "repo_marker e (Aur p) = color_line e ''aur/'' 9 True"

text \<open>Lines 448 to 450.\<close>

definition groups_note :: "'d env \<Rightarrow> 'd AnyPackage \<Rightarrow> string" where
  "groups_note e package =
     (if package_groups package \<noteq> []
      then color_line e (''('' @ join '' '' (package_groups package) @ '') '') GROUP_COLOR True
      else [])"

text \<open>Lines 452 to 459.\<close>

definition installed_note :: "'d env \<Rightarrow> (string \<rightharpoonup> string) \<Rightarrow> 'd AnyPackage \<Rightarrow> string" where
  "installed_note e local_pkgs_versions package =
     (case local_pkgs_versions (package_name package) of
        None \<Rightarrow> []
      | Some v \<Rightarrow>
          if package_version package \<noteq> v
          then color_line e
                 (format_ph ''{version}'' v (gettext e ''[installed: {version}]'') @ '' '') 14 True
          else color_line e (gettext e ''[installed]'' @ '' '') 14 True)"

text \<open>
  Lines 461 to 472. \<open>'{}'.format\<close> and \<open>'{:.2f}'.format\<close> take an integer as
  well as a float.
\<close>

fun str_number :: "'d env \<Rightarrow> 'd py_number \<Rightarrow> string" where
  "str_number e PyNone = ''None''"
| "str_number e (PyInt v) = str_int v"
| "str_number e (PyFloat x) = float_str e x"

fun format_2f :: "'d env \<Rightarrow> 'd py_number \<Rightarrow> string" where
  "format_2f e PyNone = []"
| "format_2f e (PyInt v) = str_int v @ ''.00''"
| "format_2f e (PyFloat x) = float_2f e x"

fun rating :: "'d env \<Rightarrow> 'd AnyPackage \<Rightarrow> string" where
  "rating e (Aur p) =
     (if numvotes p \<noteq> PyNone \<and> popularity p \<noteq> PyNone
      then color_line e
             (''('' @ str_number e (numvotes p) @ '', '' @ format_2f e (popularity p) @ '')'')
             3 True
      else [])"
| "rating e (Alpm p) = []"

text \<open>Lines 474 to 484: the version text with its color.\<close>

fun version_note :: "'d env \<Rightarrow> 'd AnyPackage \<Rightarrow> string" where
  "version_note e (Aur p) =
     (case outofdate p of
        None \<Rightarrow> color_line e (aur_version p) (color_Version e) True
      | Some t \<Rightarrow>
          color_line e
            (aur_version p @ '' ['' @ gettext e ''outofdate'' @ '': '' @ format_date e t @ '']'')
            (color_VersionDiffOld e) True)"
| "version_note e (Alpm p) = color_line e (alpm_version p) (color_Version e) True"

text \<open>Lines 435 to 495: what one record prints.\<close>

definition search_lines ::
  "'d env \<Rightarrow> (string \<rightharpoonup> string) \<Rightarrow> bool \<Rightarrow> int \<Rightarrow> nat \<times> 'd AnyPackage \<Rightarrow> string list" where
  "search_lines e local_pkgs_versions enumerated enumerate_from ip =
     (case ip of (pkg_idx, package) \<Rightarrow>
      if quiet e then [package_name package]
      else [idx_prefix e enumerated enumerate_from pkg_idx @
            repo_marker e package @
            bold_line e (package_name package) @ '' '' @
            version_note e package @ '' '' @
            groups_note e package @
            installed_note e local_pkgs_versions package @
            rating e package,
            format_paragraph e (package_desc package)])"

text \<open>The lines written to standard output, in order.\<close>

definition print_package_search_results ::
  "'d env \<Rightarrow> 'd AnyPackage list \<Rightarrow> (string \<rightharpoonup> string) \<Rightarrow> bool \<Rightarrow> int \<Rightarrow> string list" where
  "print_package_search_results e packages local_pkgs_versions enumerated enumerate_from =
     concat (map (search_lines e local_pkgs_versions enumerated enumerate_from)
               (enumerate 0 (sorted_packages e packages)))"

section \<open>The categories of the report, as a table\<close>














section \<open>A sample environment\<close>

text \<open>
  Concrete collaborators on which the model is evaluated: ANSI escape sequences
  for the colors, no translation (English plural rule), a terminal of 80 columns.
  Its floats are the whole numbers, on which the sums and products of the machine are
  exact as long as they stay below \<open>2 ^ 53\<close>.
\<close>

definition ESC :: string where
  "ESC = [CHR 0x1B]"

definition sample_color_line :: "string \<Rightarrow> nat \<Rightarrow> bool \<Rightarrow> string" where
  "sample_color_line line n reset =
     ESC @ ''[38;5;'' @ digits n @ ''m'' @ line @ (if reset then ESC @ ''[0m'' else [])"

definition sample_bold_line :: "string \<Rightarrow> string" where
  "sample_bold_line line = ESC @ ''[1m'' @ line @ ESC @ ''[0m''"

definition sample_common_version :: "string \<Rightarrow> string \<Rightarrow> string \<times> int" where
  "sample_common_version a b = (if a = b then (a, 0) else ([], 1))"

definition sample_env :: "int env" where
  "sample_env =
     \<lparr> color_line = sample_color_line,
       bold_line = sample_bold_line,
       get_term_width = 80,
       gettext = (\<lambda>s. s),
       ngettext = (\<lambda>singular plural n. if n = 1 then singular else plural),
       format_paragraph = (\<lambda>s. ''    '' @ s),
       get_common_version = sample_common_version,
       get_version_diff = (\<lambda>v common. drop (length common) v),
       color_Version = 10,
       color_VersionDiffOld = 11,
       color_VersionDiffNew = 9,
       UpgradeSorting = ''versiondiff'',
       AlwaysShowPkgOrigin = False,
       quiet = False,
       float_value = real_of_int,
       float_add_int = (\<lambda>x n. x + n),
       int_mul_float = (\<lambda>n x. n * x),
       float_str = (\<lambda>x. str_int x @ ''.0''),
       float_2f = (\<lambda>x. str_int x @ ''.00''),
       format_date = (\<lambda>t. ''1970/01/01'') \<rparr>"

definition sample_pkg :: "string \<Rightarrow> InstallInfo" where
  "sample_pkg n =
     \<lparr> name = n, current_version = Some ''1.0'', new_version = Some ''1.1'',
       repository = None, description = None, devel_pkg_age_days = None,
       required_by = [], provided_by = [], members_of = [], replaces = [] \<rparr>"


definition sample_alpm :: "string \<Rightarrow> string \<Rightarrow> 'd AnyPackage" where
  "sample_alpm repo n =
     Alpm \<lparr> alpm_name = n, alpm_version = ''1.0'', alpm_desc = ''a package'',
            alpm_groups = [], db_name = repo \<rparr>"

definition sample_aur :: "string \<Rightarrow> 'd py_number \<Rightarrow> 'd py_number \<Rightarrow> 'd AnyPackage" where
  "sample_aur n v q =
     Aur \<lparr> aur_name = n, aur_version = ''1.0'', aur_desc = ''a package'',
           aur_groups = [], numvotes = v, popularity = q, outofdate = None \<rparr>"

section \<open>Rendering one record\<close>

lemma add_required_by_color:
  "\<exists>st. add_required_by e True pkg st0 = Inr st"
  by (cases st0) (simp add: add_required_by_def local_color_line_noreset_def bind_err_def Let_def)

lemma add_members_of_color:
  "\<exists>st. add_members_of e True pkg st0 = Inr st"
  by (cases st0) (simp add: add_members_of_def local_color_line_noreset_def bind_err_def Let_def)

lemma add_required_by_nocolor:
  "add_required_by e False pkg st0 = (if required_by pkg = [] then Inr st0 else Inl TypeError)"
  by (cases st0) (simp add: add_required_by_def local_color_line_noreset_def bind_err_def Let_def)

lemma add_members_of_nocolor:
  "add_members_of e False pkg st0 = (if members_of pkg = [] then Inr st0 else Inl TypeError)"
  by (cases st0) (simp add: add_members_of_def local_color_line_noreset_def bind_err_def Let_def)

lemma name_before_replaces_color:
  "\<exists>st. name_before_replaces e True print_repo verbose pkg = Inr st"
proof -
  obtain st1 where 1: "add_required_by e True pkg (name_with_origin e True print_repo verbose pkg) = Inr st1"
    using add_required_by_color by blast
  obtain st2 where 2: "add_members_of e True pkg (add_provided_by e True pkg st1) = Inr st2"
    using add_members_of_color by blast
  show ?thesis by (simp add: name_before_replaces_def bind_err_def 1 2)
qed

lemma name_before_replaces_nocolor:
  "name_before_replaces e False print_repo verbose pkg =
     (if required_by pkg = [] \<and> members_of pkg = []
      then Inr (add_provided_by e False pkg (name_with_origin e False print_repo verbose pkg))
      else Inl TypeError)"
  by (simp add: name_before_replaces_def bind_err_def add_required_by_nocolor add_members_of_nocolor)

lemma name_before_replaces_ok_iff:
  "(\<exists>st. name_before_replaces e color print_repo verbose pkg = Inr st) \<longleftrightarrow>
     color \<or> (required_by pkg = [] \<and> members_of pkg = [])"
  using name_before_replaces_color [of e print_repo verbose pkg]
    name_before_replaces_nocolor [of e print_repo verbose pkg]
  by (cases color) auto

lemma decorated_name_ok_iff:
  "(\<exists>st. decorated_name e color print_repo verbose pkg = Inr st) \<longleftrightarrow>
     color \<or> (required_by pkg = [] \<and> members_of pkg = [])"
  using name_before_replaces_ok_iff [of e color print_repo verbose pkg]
  by (cases "name_before_replaces e color print_repo verbose pkg")
     (simp_all add: decorated_name_def bind_err_def)

lemma pretty_format_fields_ok_iff:
  "(\<exists>f. pretty_format_fields e verbose print_repo color pkg = Inr f) \<longleftrightarrow>
     color \<or> (required_by pkg = [] \<and> members_of pkg = [])"
  using decorated_name_ok_iff [of e color print_repo verbose pkg]
  by (cases "decorated_name e color print_repo verbose pkg")
     (auto simp: pretty_format_fields_def bind_err_def Let_def)

lemma pretty_format_fields_InrD:
  assumes "pretty_format_fields e verbose print_repo color pkg = Inr f"
  shows "\<exists>pkg_name pkg_len.
      decorated_name e color print_repo verbose pkg = Inr (pkg_name, pkg_len) \<and>
      f_pkg_name f = pkg_name \<and>
      f_version_separator f =
        (if truthy (current_version pkg) \<or> truthy (new_version pkg) then '' -> '' else []) \<and>
      f_spacing f = spaces (max 1 (column_width e - pkg_len)) \<and>
      f_spacing2 f = spaces (max 1 (column_width e - 18
          - int (length (or_empty (current_version pkg)))
          - max (- 1) (pkg_len - column_width e)))"
  using assms
  by (cases "decorated_name e color print_repo verbose pkg")
     (auto simp: pretty_format_fields_def bind_err_def Let_def)

lemma error_is_TypeError: "(r :: error + 'a) = Inl x \<longleftrightarrow> r = Inl TypeError"
  by (cases x) simp

lemma render_default_template:
  "render_template default_template f =
     '' '' @ f_pkg_name f @ f_spacing f @ '' '' @ f_current_version f @ f_spacing2 f @
     f_version_separator f @ f_new_version f @ f_days_old f @ f_verbose f"
  by (simp add: render_template_def default_template_def)

text \<open>
  When a record is rendered, and what its version separator and its default line
  are.
\<close>

lemma version_separator_field:
  "((\<exists>f. pretty_format_fields e verbose print_repo color pkg = Inr f) \<longleftrightarrow>
      color \<or> (required_by pkg = [] \<and> members_of pkg = [])) \<and>
   (\<forall>f. pretty_format_fields e verbose print_repo color pkg = Inr f \<longrightarrow>
      (f_version_separator f = [] \<longleftrightarrow>
         \<not> truthy (current_version pkg) \<and> \<not> truthy (new_version pkg)) \<and>
      (f_version_separator f \<noteq> [] \<longrightarrow> f_version_separator f = '' -> '') \<and>
      pretty_format e verbose print_repo color None pkg =
        Inr ('' '' @ f_pkg_name f @ f_spacing f @ '' '' @ f_current_version f @ f_spacing2 f @
             f_version_separator f @ f_new_version f @ f_days_old f @ f_verbose f,
             sort_by e pkg))"
proof (intro conjI allI impI)
  show "(\<exists>f. pretty_format_fields e verbose print_repo color pkg = Inr f) \<longleftrightarrow>
      color \<or> (required_by pkg = [] \<and> members_of pkg = [])"
    by (rule pretty_format_fields_ok_iff)
next
  fix f assume ok: "pretty_format_fields e verbose print_repo color pkg = Inr f"
  from pretty_format_fields_InrD [OF ok]
  have sep: "f_version_separator f =
        (if truthy (current_version pkg) \<or> truthy (new_version pkg) then '' -> '' else [])"
    by blast
  show "f_version_separator f = [] \<longleftrightarrow>
         \<not> truthy (current_version pkg) \<and> \<not> truthy (new_version pkg)"
    by (simp add: sep)
  show "f_version_separator f = '' -> ''" if "f_version_separator f \<noteq> []"
    using that by (simp add: sep split: if_splits)
  show "pretty_format e verbose print_repo color None pkg =
        Inr ('' '' @ f_pkg_name f @ f_spacing f @ '' '' @ f_current_version f @ f_spacing2 f @
             f_version_separator f @ f_new_version f @ f_days_old f @ f_verbose f,
             sort_by e pkg)"
    by (simp add: pretty_format_def ok bind_err_def template_or_default_def
        render_default_template)
qed

lemma pretty_format_fields_nocolor_error:
  assumes "required_by pkg \<noteq> [] \<or> members_of pkg \<noteq> []"
  shows "pretty_format_fields e verbose print_repo False pkg = Inl TypeError"
proof (cases "pretty_format_fields e verbose print_repo False pkg")
  case (Inl x)
  then show ?thesis by (cases x) simp
next
  case (Inr f)
  with pretty_format_fields_ok_iff [of e verbose print_repo False pkg] assms
  show ?thesis by blast
qed

lemma pretty_format_nocolor_error:
  assumes "required_by pkg \<noteq> [] \<or> members_of pkg \<noteq> []"
  shows "pretty_format e verbose print_repo False template pkg = Inl TypeError"
  by (simp add: pretty_format_def pretty_format_fields_nocolor_error [OF assms] bind_err_def)

text \<open>
  Claim C6 at a record with both versions empty and one requiring package. Without
  color the record is not rendered: \<open>pretty_format\<close> and
  \<open>pretty_format_upgradeable\<close> raise \<open>TypeError\<close>, because line 142 calls the
  lambda of line 82 with the keyword \<open>reset\<close>. With color the same record is
  rendered and has no version separator.
\<close>

theorem both_versions_empty_raises_without_color:
  "pretty_format sample_env False False False None
     ((sample_pkg ''foo'')\<lparr>current_version := None, new_version := None,
                            required_by := [''bar'']\<rparr>) = Inl TypeError \<and>
   pretty_format_upgradeable sample_env
     [(sample_pkg ''foo'')\<lparr>current_version := None, new_version := None,
                             required_by := [''bar'']\<rparr>] False False False None
     = Inl TypeError \<and>
   (\<exists>f. pretty_format_fields sample_env False False True
           ((sample_pkg ''foo'')\<lparr>current_version := None, new_version := None,
                                  required_by := [''bar'']\<rparr>) = Inr f \<and>
        f_version_separator f = [])"
proof -
  let ?p = "(sample_pkg ''foo'')\<lparr>current_version := None, new_version := None,
                                   required_by := [''bar'']\<rparr>"
  have rb: "required_by ?p \<noteq> [] \<or> members_of ?p \<noteq> []" by simp
  have 1: "pretty_format sample_env False False False None ?p = Inl TypeError"
    by (rule pretty_format_nocolor_error [OF rb])
  have 2: "pretty_format_upgradeable sample_env [?p] False False False None = Inl TypeError"
    by (simp add: pretty_format_upgradeable_def 1 bind_err_def)
  obtain f where f: "pretty_format_fields sample_env False False True ?p = Inr f"
    using pretty_format_fields_ok_iff [of sample_env False False True ?p] by blast
  from pretty_format_fields_InrD [OF f]
  have "f_version_separator f = []"
    by (auto simp: truthy_def or_empty_def sample_pkg_def)
  with 1 2 f show ?thesis by blast
qed

lemma column_width_real:
  "column_width (e\<lparr>get_term_width := w\<rparr>) =
     min (if 0 \<le> w then \<lfloor>real_of_int w / 2.5\<rfloor> else \<lceil>real_of_int w / 2.5\<rceil>) 37"
proof -
  have a: "real_of_int w / 2.5 = real_of_int (2 * w) / real_of_int 5" by simp
  have b: "\<lfloor>real_of_int w / 2.5\<rfloor> = (2 * w) div 5"
    unfolding a by (rule floor_divide_of_int_eq)
  have c: "- (real_of_int w / 2.5) = real_of_int (2 * (- w)) / real_of_int 5" by simp
  have d: "\<lceil>real_of_int w / 2.5\<rceil> = - ((2 * (- w)) div 5)"
    unfolding ceiling_def c by (simp only: floor_divide_of_int_eq)
  show ?thesis unfolding b d by (simp add: column_width_def)
qed

lemma spaces_max1: "\<exists>n. 1 \<le> n \<and> spaces (max 1 k) = replicate n (CHR '' '')"
  by (rule exI [of _ "nat (max 1 k)"]) (simp add: spaces_def)

text \<open>
  The column width at every terminal width, and the two spacing fields of a
  rendered record.
\<close>

lemma spacing_fields:
  "column_width (e\<lparr>get_term_width := w\<rparr>) =
     min (if 0 \<le> w then \<lfloor>real_of_int w / 2.5\<rfloor> else \<lceil>real_of_int w / 2.5\<rceil>) 37 \<and>
   ((\<exists>f. pretty_format_fields (e\<lparr>get_term_width := w\<rparr>) verbose print_repo color pkg = Inr f)
      \<longleftrightarrow> color \<or> (required_by pkg = [] \<and> members_of pkg = [])) \<and>
   (\<forall>f. pretty_format_fields (e\<lparr>get_term_width := w\<rparr>) verbose print_repo color pkg = Inr f \<longrightarrow>
      (\<exists>n m. 1 \<le> n \<and> 1 \<le> m \<and>
         f_spacing f = replicate n (CHR '' '') \<and> f_spacing2 f = replicate m (CHR '' '')))"
proof (intro conjI allI impI)
  show "column_width (e\<lparr>get_term_width := w\<rparr>) =
     min (if 0 \<le> w then \<lfloor>real_of_int w / 2.5\<rfloor> else \<lceil>real_of_int w / 2.5\<rceil>) 37"
    by (rule column_width_real)
  show "(\<exists>f. pretty_format_fields (e\<lparr>get_term_width := w\<rparr>) verbose print_repo color pkg = Inr f)
      \<longleftrightarrow> color \<or> (required_by pkg = [] \<and> members_of pkg = [])"
    by (rule pretty_format_fields_ok_iff)
next
  fix f
  assume ok: "pretty_format_fields (e\<lparr>get_term_width := w\<rparr>) verbose print_repo color pkg = Inr f"
  from pretty_format_fields_InrD [OF ok] obtain pkg_len where
    s1: "f_spacing f = spaces (max 1 (column_width (e\<lparr>get_term_width := w\<rparr>) - pkg_len))" and
    s2: "f_spacing2 f = spaces (max 1 (column_width (e\<lparr>get_term_width := w\<rparr>) - 18
          - int (length (or_empty (current_version pkg)))
          - max (- 1) (pkg_len - column_width (e\<lparr>get_term_width := w\<rparr>))))"
    by blast
  from spaces_max1 obtain n where n: "1 \<le> n" "f_spacing f = replicate n (CHR '' '')"
    unfolding s1 by blast
  from spaces_max1 obtain m where m: "1 \<le> m" "f_spacing2 f = replicate m (CHR '' '')"
    unfolding s2 by blast
  from n m show "\<exists>n m. 1 \<le> n \<and> 1 \<le> m \<and>
         f_spacing f = replicate n (CHR '' '') \<and> f_spacing2 f = replicate m (CHR '' '')"
    by blast
qed

text \<open>
  Claim C7 at a record that belongs to a group. Without color the record is not
  rendered at any terminal width, here at 80, 0 and -7 columns: \<open>pretty_format\<close>
  raises \<open>TypeError\<close>, because line 163 calls the lambda of line 82 with the keyword
  \<open>reset\<close>. With color the same record is rendered at the width 0, and both its
  spacings are runs of at least one space.
\<close>

theorem rendering_raises_without_color_at_every_width:
  "pretty_format (sample_env\<lparr>get_term_width := 80\<rparr>) False False False None
     ((sample_pkg ''foo'')\<lparr>members_of := [''base'']\<rparr>) = Inl TypeError \<and>
   pretty_format (sample_env\<lparr>get_term_width := 0\<rparr>) False False False None
     ((sample_pkg ''foo'')\<lparr>members_of := [''base'']\<rparr>) = Inl TypeError \<and>
   pretty_format (sample_env\<lparr>get_term_width := - 7\<rparr>) False False False None
     ((sample_pkg ''foo'')\<lparr>members_of := [''base'']\<rparr>) = Inl TypeError \<and>
   (\<exists>f n m. pretty_format_fields (sample_env\<lparr>get_term_width := 0\<rparr>) False False True
           ((sample_pkg ''foo'')\<lparr>members_of := [''base'']\<rparr>) = Inr f \<and>
        1 \<le> n \<and> 1 \<le> m \<and>
        f_spacing f = replicate n (CHR '' '') \<and> f_spacing2 f = replicate m (CHR '' ''))"
proof -
  let ?p = "(sample_pkg ''foo'')\<lparr>members_of := [''base'']\<rparr>"
  have mo: "required_by ?p \<noteq> [] \<or> members_of ?p \<noteq> []" by simp
  have 1: "pretty_format e False False False None ?p = Inl TypeError" for e :: "int env"
    by (rule pretty_format_nocolor_error [OF mo])
  obtain f where f: "pretty_format_fields (sample_env\<lparr>get_term_width := 0\<rparr>)
      False False True ?p = Inr f"
    using pretty_format_fields_ok_iff
      [of "sample_env\<lparr>get_term_width := 0\<rparr>" False False True ?p] by blast
  from spacing_fields [where e = sample_env and w = 0 and verbose = False
      and print_repo = False and color = True and pkg = ?p] f
  obtain n m where "1 \<le> n" "1 \<le> m"
    "f_spacing f = replicate n (CHR '' '')" "f_spacing2 f = replicate m (CHR '' '')"
    by blast
  with 1 f show ?thesis by blast
qed

lemma add_replaces_eq:
  "add_replaces e color pkg (n, l) =
     (if replaces pkg = [] then (n, l)
      else if color
      then (n @ color_line e ('' (replaces '' @ join '', '' (replaces pkg) @ '')'')
                   REPLACEMENTS_COLOR True,
            l + int (length ('' (replaces '' @ join '', '' (replaces pkg) @ '')'')))
      else (''# '' @ n @ '' (replaces '' @ join '', '' (replaces pkg) @ '')'',
            l + int (length ('' (replaces '' @ join '', '' (replaces pkg) @ '')''))))"
  by (simp add: add_replaces_def local_color_line_def Let_def)

lemma decorated_name_Inr:
  "decorated_name e color print_repo verbose pkg = Inr st \<longleftrightarrow>
     (\<exists>n l. name_before_replaces e color print_repo verbose pkg = Inr (n, l) \<and>
            st = add_replaces e color pkg (n, l))"
  by (cases "name_before_replaces e color print_repo verbose pkg")
     (auto simp: decorated_name_def bind_err_def)

lemma pretty_format_fields_name:
  "pretty_format_fields e verbose print_repo color pkg = Inr f \<Longrightarrow>
   \<exists>n l. name_before_replaces e color print_repo verbose pkg = Inr (n, l) \<and>
         f_pkg_name f = fst (add_replaces e color pkg (n, l))"
  using pretty_format_fields_InrD [of e verbose print_repo color pkg f]
  by (auto simp: decorated_name_Inr) (metis fst_conv)

text \<open>
  Claim C10. For a record whose \<open>replaces\<close> list is not empty: without color, every
  rendered name field is \<open># \<close>, then the name as it stood before the replaces step,
  then the plain replaces note, and such a record is rendered exactly when it has
  neither requiring packages nor groups; with color the record is always rendered and
  the name field is the name as it stood, followed by the colorized replaces note, with
  no marker in front.
\<close>

theorem replaces_marker_without_color:
  assumes "replaces pkg \<noteq> []"
  shows "(\<forall>f. pretty_format_fields e verbose print_repo False pkg = Inr f \<longrightarrow>
            (\<exists>n l. name_before_replaces e False print_repo verbose pkg = Inr (n, l) \<and>
               f_pkg_name f = ''# '' @ n @ '' (replaces '' @ join '', '' (replaces pkg) @ '')'')) \<and>
         ((\<exists>f. pretty_format_fields e verbose print_repo False pkg = Inr f) \<longleftrightarrow>
            required_by pkg = [] \<and> members_of pkg = []) \<and>
         (\<exists>f n l. pretty_format_fields e verbose print_repo True pkg = Inr f \<and>
            name_before_replaces e True print_repo verbose pkg = Inr (n, l) \<and>
            f_pkg_name f =
              n @ color_line e ('' (replaces '' @ join '', '' (replaces pkg) @ '')'')
                    REPLACEMENTS_COLOR True)"
proof (intro conjI allI impI)
  fix f assume "pretty_format_fields e verbose print_repo False pkg = Inr f"
  from pretty_format_fields_name [OF this] assms
  show "\<exists>n l. name_before_replaces e False print_repo verbose pkg = Inr (n, l) \<and>
               f_pkg_name f = ''# '' @ n @ '' (replaces '' @ join '', '' (replaces pkg) @ '')''"
    by (auto simp: add_replaces_eq)
next
  show "(\<exists>f. pretty_format_fields e verbose print_repo False pkg = Inr f) \<longleftrightarrow>
            required_by pkg = [] \<and> members_of pkg = []"
    by (simp add: pretty_format_fields_ok_iff)
next
  obtain f where f: "pretty_format_fields e verbose print_repo True pkg = Inr f"
    using pretty_format_fields_ok_iff [of e verbose print_repo True pkg] by blast
  from pretty_format_fields_name [OF f] assms
  show "\<exists>f n l. pretty_format_fields e verbose print_repo True pkg = Inr f \<and>
            name_before_replaces e True print_repo verbose pkg = Inr (n, l) \<and>
            f_pkg_name f =
              n @ color_line e ('' (replaces '' @ join '', '' (replaces pkg) @ '')'')
                    REPLACEMENTS_COLOR True"
    using f by (auto simp: add_replaces_eq)
qed

theorem replaces_marker_without_color_witness:
  "\<exists>f. pretty_format_fields sample_env False False False
          ((sample_pkg ''foo'')\<lparr>replaces := [''bar'', ''baz'']\<rparr>) = Inr f \<and>
       f_pkg_name f = ''# foo (replaces bar, baz)''"
proof -
  let ?p = "(sample_pkg ''foo'')\<lparr>replaces := [''bar'', ''baz'']\<rparr>"
  have ne: "replaces ?p \<noteq> []" by simp
  have nb: "name_before_replaces sample_env False False False ?p = Inr (''foo'', 3)"
    by (simp add: name_before_replaces_nocolor sample_pkg_def add_provided_by_def
        name_with_origin_def local_bold_line_def)
  have rb: "required_by ?p = []" "members_of ?p = []" "replaces ?p = [''bar'', ''baz'']"
    by (simp_all add: sample_pkg_def)
  from replaces_marker_without_color [OF ne, of sample_env False False]
  show ?thesis by (auto simp: nb rb)
qed

lemma add_required_by_appends:
  "add_required_by e color pkg (n, l) = Inr (n', l') \<Longrightarrow> \<exists>r. n' = n @ r"
  by (auto simp: add_required_by_def bind_err_def Let_def split: if_splits sum.splits)

lemma add_provided_by_appends:
  "add_provided_by e color pkg (n, l) = (n', l') \<Longrightarrow> \<exists>r. n' = n @ r"
  by (auto simp: add_provided_by_def Let_def split: if_splits)

lemma add_members_of_appends:
  "add_members_of e color pkg (n, l) = Inr (n', l') \<Longrightarrow> \<exists>r. n' = n @ r"
  by (auto simp: add_members_of_def bind_err_def Let_def split: if_splits sum.splits)

lemma name_before_replaces_appends:
  assumes "name_before_replaces e color print_repo verbose pkg = Inr (n, l)"
  shows "\<exists>r. n = fst (name_with_origin e color print_repo verbose pkg) @ r"
proof -
  obtain n0 l0 where o: "name_with_origin e color print_repo verbose pkg = (n0, l0)"
    by (cases "name_with_origin e color print_repo verbose pkg")
  from assms obtain n1 l1 where
    1: "add_required_by e color pkg (n0, l0) = Inr (n1, l1)" and
    2: "add_members_of e color pkg (add_provided_by e color pkg (n1, l1)) = Inr (n, l)"
    by (cases "add_required_by e color pkg (n0, l0)")
       (auto simp: name_before_replaces_def bind_err_def o)
  obtain n2 l2 where 3: "add_provided_by e color pkg (n1, l1) = (n2, l2)"
    by (cases "add_provided_by e color pkg (n1, l1)")
  from add_required_by_appends [OF 1] add_provided_by_appends [OF 3]
    add_members_of_appends [OF 2 [unfolded 3]]
  show ?thesis by (auto simp: o)
qed

lemma name_with_origin_fst:
  "fst (name_with_origin e color print_repo verbose pkg) =
     (if (print_repo \<or> verbose) \<and> truthy (repository pkg)
      then local_color_line e color (or_empty (repository pkg) @ ''/'') 13
      else if print_repo then local_color_line e color ''aur/'' 9 else []) @
     local_bold_line e color (name pkg)"
  by (simp add: name_with_origin_def Let_def)

text \<open>
  Claim C8, amended. In every rendered record the name field is, after the \<open># \<close>
  marker of a replacement shown without color, the origin prefix followed by the bold
  name and the decorations. The origin prefix is the repository and a slash in the
  fixed color 13 when \<open>print_repo\<close> or \<open>verbose\<close> is set and the repository is
  known; otherwise it is \<open>aur/\<close> in the fixed color 9 when \<open>print_repo\<close> is set;
  otherwise it is empty. The color computed from the repository name, its length modulo
  5 plus 10, belongs to \<open>pretty_format_repo_name\<close>, which marks the repository
  records of the search results.
\<close>

theorem origin_prefix_fixed_colors:
  "(\<forall>f. pretty_format_fields e verbose print_repo color pkg = Inr f \<longrightarrow>
      (\<exists>rest. f_pkg_name f =
         (if \<not> color \<and> replaces pkg \<noteq> [] then ''# '' else []) @
         (if (print_repo \<or> verbose) \<and> truthy (repository pkg)
          then local_color_line e color (or_empty (repository pkg) @ ''/'') 13
          else if print_repo then local_color_line e color ''aur/'' 9 else []) @
         local_bold_line e color (name pkg) @ rest)) \<and>
   repo_marker e (Alpm p) = color_line e (db_name p @ ''/'') (length (db_name p) mod 5 + 10) True"
proof (intro conjI allI impI)
  fix f assume "pretty_format_fields e verbose print_repo color pkg = Inr f"
  from pretty_format_fields_name [OF this] obtain n l where
    nb: "name_before_replaces e color print_repo verbose pkg = Inr (n, l)" and
    f: "f_pkg_name f = fst (add_replaces e color pkg (n, l))"
    by blast
  from name_before_replaces_appends [OF nb] obtain r where
    r: "n = fst (name_with_origin e color print_repo verbose pkg) @ r" by blast
  show "\<exists>rest. f_pkg_name f =
         (if \<not> color \<and> replaces pkg \<noteq> [] then ''# '' else []) @
         (if (print_repo \<or> verbose) \<and> truthy (repository pkg)
          then local_color_line e color (or_empty (repository pkg) @ ''/'') 13
          else if print_repo then local_color_line e color ''aur/'' 9 else []) @
         local_bold_line e color (name pkg) @ rest"
    unfolding f r name_with_origin_fst by (simp add: add_replaces_eq)
next
  show "repo_marker e (Alpm p) =
      color_line e (db_name p @ ''/'') (length (db_name p) mod 5 + 10) True"
    by (simp add: pretty_format_repo_name_def)
qed

theorem origin_prefix_fixed_colors_witness:
  "\<exists>f rest. pretty_format_fields sample_env False True True (sample_pkg ''foo'') = Inr f \<and>
     f_pkg_name f = sample_color_line ''aur/'' 9 True @ sample_bold_line ''foo'' @ rest"
proof -
  obtain f where f: "pretty_format_fields sample_env False True True (sample_pkg ''foo'') = Inr f"
    using pretty_format_fields_ok_iff [of sample_env False True True "sample_pkg ''foo''"]
    by blast
  have a: "\<not> truthy (repository (sample_pkg ''foo''))" "name (sample_pkg ''foo'') = ''foo''"
    by (simp_all add: sample_pkg_def truthy_def or_empty_def)
  have b: "color_line sample_env = sample_color_line" "bold_line sample_env = sample_bold_line"
    by (simp_all add: sample_env_def)
  from origin_prefix_fixed_colors [of sample_env False True True "sample_pkg ''foo''"] f
  show ?thesis
    by (auto simp: a b local_color_line_def local_bold_line_def)
qed

theorem origin_prefix_hash_color_counterexample:
  "(\<exists>f. pretty_format_fields sample_env False True True
          ((sample_pkg ''foo'')\<lparr>repository := Some ''core''\<rparr>) = Inr f \<and>
        f_pkg_name f = sample_color_line ''core/'' 13 True @ sample_bold_line ''foo'' \<and>
        f_pkg_name f \<noteq> pretty_format_repo_name sample_env ''core'' @ sample_bold_line ''foo'') \<and>
   (\<exists>f. pretty_format_fields sample_env True False True
          ((sample_pkg ''foo'')\<lparr>repository := Some ''core''\<rparr>) = Inr f \<and>
        f_pkg_name f = sample_color_line ''core/'' 13 True @ sample_bold_line ''foo'') \<and>
   (\<exists>f. pretty_format_fields sample_env True False True (sample_pkg ''foo'') = Inr f \<and>
        f_pkg_name f = sample_bold_line ''foo'')"
  by (simp add: pretty_format_fields_def decorated_name_def name_before_replaces_def
      add_required_by_def add_provided_by_def add_members_of_def add_replaces_def
      name_with_origin_def local_color_line_def local_bold_line_def bind_err_def
      sample_env_def sample_pkg_def truthy_def or_empty_def Let_def
      pretty_format_repo_name_def sample_color_line_def digits.simps digit_char_def
      char_of_eq_iff)

lemma concat_pairs_nth:
  "\<forall>x\<in>set xs. length (f x) = 2 \<Longrightarrow> i < length xs \<Longrightarrow>
   concat (map f xs) ! (2 * i) = f (xs ! i) ! 0"
proof (induction xs arbitrary: i)
  case Nil
  then show ?case by simp
next
  case (Cons x xs)
  show ?case
  proof (cases i)
    case 0
    with Cons.prems show ?thesis by (simp add: nth_append)
  next
    case (Suc j)
    with Cons.prems have "j < length xs" by simp
    with Cons.IH Cons.prems have "concat (map f xs) ! (2 * j) = f (xs ! j) ! 0" by simp
    with Cons.prems Suc show ?thesis by (simp add: nth_append)
  qed
qed

lemma concat_pairs_length:
  "\<forall>x\<in>set xs. length (f x) = 2 \<Longrightarrow> length (concat (map f xs)) = 2 * length xs"
  by (induction xs) simp_all

lemma length_sorted_packages: "length (sorted_packages e packages) = length packages"
  by (simp add: sorted_packages_def)

lemma search_lines_not_quiet:
  "\<not> quiet e \<Longrightarrow> length (search_lines e l en ef ip) = 2"
  by (cases ip) (simp add: search_lines_def)

text \<open>
  Claim C9, amended. With enumeration on and \<open>quiet\<close> off, every record prints
  two lines, and the first line of the record at position \<open>i\<close> of the sorted output
  (counted from 0) begins with the bold text of \<open>i + enumerate_from\<close> followed by
  a closing bracket and a space. The numbering therefore starts at \<open>enumerate_from\<close>,
  whose default is 0.
\<close>

theorem enumeration_starts_at_enumerate_from:
  assumes "\<not> quiet e" and "i < length packages"
  shows "length (print_package_search_results e packages local_pkgs_versions True enumerate_from)
           = 2 * length packages \<and>
         (\<exists>rest.
            print_package_search_results e packages local_pkgs_versions True enumerate_from
              ! (2 * i) =
            bold_line e (str_int (int i + enumerate_from) @ '') '') @
            repo_marker e (sorted_packages e packages ! i) @ rest)"
proof -
  let ?f = "search_lines e local_pkgs_versions True enumerate_from"
  let ?xs = "enumerate 0 (sorted_packages e packages)"
  have two: "\<forall>x\<in>set ?xs. length (?f x) = 2"
    using assms(1) by (simp add: search_lines_not_quiet)
  have len: "length ?xs = length packages"
    by (simp add: length_sorted_packages)
  have i: "i < length ?xs" using assms(2) len by simp
  have nth: "?xs ! i = (i, sorted_packages e packages ! i)"
    using assms(2) by (simp add: nth_enumerate_eq length_sorted_packages)
  have "concat (map ?f ?xs) ! (2 * i) = ?f (?xs ! i) ! 0"
    by (rule concat_pairs_nth [OF two i])
  also have "\<dots> = idx_prefix e True enumerate_from i @
            repo_marker e (sorted_packages e packages ! i) @
            bold_line e (package_name (sorted_packages e packages ! i)) @ '' '' @
            version_note e (sorted_packages e packages ! i) @ '' '' @
            groups_note e (sorted_packages e packages ! i) @
            installed_note e local_pkgs_versions (sorted_packages e packages ! i) @
            rating e (sorted_packages e packages ! i)"
    using assms(1) by (simp add: nth search_lines_def)
  finally have line: "concat (map ?f ?xs) ! (2 * i) =
      bold_line e (str_int (int i + enumerate_from) @ '') '') @
      repo_marker e (sorted_packages e packages ! i) @
      (bold_line e (package_name (sorted_packages e packages ! i)) @ '' '' @
            version_note e (sorted_packages e packages ! i) @ '' '' @
            groups_note e (sorted_packages e packages ! i) @
            installed_note e local_pkgs_versions (sorted_packages e packages ! i) @
            rating e (sorted_packages e packages ! i))"
    by (simp add: idx_prefix_def)
  have "length (concat (map ?f ?xs)) = 2 * length packages"
    using concat_pairs_length [OF two] len by simp
  with line show ?thesis
    unfolding print_package_search_results_def by blast
qed

text \<open>Decimal digits on concrete numbers.\<close>

lemma digit_char_simps:
  "digit_char 0 = CHR ''0''" "digit_char 1 = CHR ''1''" "digit_char 2 = CHR ''2''"
  "digit_char 3 = CHR ''3''" "digit_char 4 = CHR ''4''" "digit_char 5 = CHR ''5''"
  "digit_char 6 = CHR ''6''" "digit_char 7 = CHR ''7''" "digit_char 8 = CHR ''8''"
  "digit_char 9 = CHR ''9''" "digit_char (Suc 0) = CHR ''1''"
  by code_simp+

theorem enumeration_starts_at_enumerate_from_witness:
  "length (print_package_search_results sample_env [sample_alpm ''core'' ''foo''] Map.empty
             True 1) = 2 \<and>
   (\<exists>rest. print_package_search_results sample_env [sample_alpm ''core'' ''foo''] Map.empty
             True 1 ! 0 = sample_bold_line ''1) '' @ rest)"
proof -
  have q: "\<not> quiet sample_env" by (simp add: sample_env_def)
  have b: "bold_line sample_env = sample_bold_line" by (simp add: sample_env_def)
  have s: "str_int 1 = ''1''" by (simp add: str_int_def digits.simps digit_char_simps)
  from enumeration_starts_at_enumerate_from
    [of sample_env 0 "[sample_alpm ''core'' ''foo'']" Map.empty 1, OF q]
  show ?thesis by (simp add: b s) blast
qed

theorem enumeration_one_based_counterexample:
  "(\<exists>rest. print_package_search_results sample_env [sample_alpm ''core'' ''foo''] Map.empty
             True default_enumerate_from ! 0 = sample_bold_line ''0) '' @ rest) \<and>
   \<not> (\<exists>rest. print_package_search_results sample_env [sample_alpm ''core'' ''foo''] Map.empty
             True default_enumerate_from ! 0 = sample_bold_line ''1) '' @ rest)"
proof -
  have s: "str_int 0 = ''0''" by (simp add: str_int_def digits.simps digit_char_simps)
  have "print_package_search_results sample_env [sample_alpm ''core'' ''foo''] Map.empty
             True default_enumerate_from ! 0 =
        sample_bold_line ''0) '' @ repo_marker sample_env (sample_alpm ''core'' ''foo'') @
        sample_bold_line ''foo'' @ '' '' @
        version_note sample_env (sample_alpm ''core'' ''foo'') @ '' ''"
    by (simp add: print_package_search_results_def sorted_packages_def enumerate_eq_zip
        search_lines_def idx_prefix_def default_enumerate_from_def s sample_env_def
        sample_alpm_def groups_note_def installed_note_def)
  then show ?thesis by (simp add: sample_bold_line_def)
qed

lemma sorted_packages_descending:
  "sorted_wrt (\<lambda>a b. get_sort_key e b \<le> get_sort_key e a) (sorted_packages e packages)"
proof -
  have "sorted (map (get_sort_key e) (sort_key (get_sort_key e) (rev packages)))"
    by (rule sorted_sort_key)
  then have "sorted_wrt (\<lambda>a b. get_sort_key e a \<le> get_sort_key e b)
               (sort_key (get_sort_key e) (rev packages))"
    by (simp add: sorted_map)
  then show ?thesis
    by (simp add: sorted_packages_def sorted_wrt_rev)
qed

lemma sorted_packages_stable:
  "filter (\<lambda>p. get_sort_key e p = k) (sorted_packages e packages) =
   filter (\<lambda>p. get_sort_key e p = k) packages"
proof -
  have "filter (\<lambda>p. get_sort_key e p = k) (sorted_packages e packages) =
        rev (filter (\<lambda>p. get_sort_key e p = k) (sort_key (get_sort_key e) (rev packages)))"
    by (simp add: sorted_packages_def rev_filter)
  also have "\<dots> = rev (filter (\<lambda>p. get_sort_key e p = k) (rev packages))"
    by (simp only: sort_key_stable)
  also have "\<dots> = filter (\<lambda>p. get_sort_key e p = k) packages"
    by (simp add: rev_filter)
  finally show ?thesis .
qed

lemma mset_sorted_packages: "mset (sorted_packages e packages) = mset packages"
  by (simp add: sorted_packages_def)

lemma quiet_output:
  "quiet e \<Longrightarrow>
   print_package_search_results e packages l en ef =
     map package_name (sorted_packages e packages)"
proof -
  assume q: "quiet e"
  have "concat (map (search_lines e l en ef) (enumerate n xs)) = map package_name xs" for n xs
    by (induction xs arbitrary: n) (simp_all add: search_lines_def q)
  then show ?thesis by (simp add: print_package_search_results_def)
qed

lemma get_sort_key_neutral:
  fixes p :: "'d AURPackageInfo"
  assumes "(\<forall>v. numvotes p \<noteq> PyInt v) \<or> (\<forall>q. popularity p \<noteq> PyFloat q)"
  shows "get_sort_key e (Aur p) = 1"
  using assms by (cases "numvotes p"; cases "popularity p") simp_all

text \<open>
  Claim C5, amended. The sort key of an AUR record whose \<open>numvotes\<close> is an integer
  and whose \<open>popularity\<close> is a float is the float \<open>(numvotes + 1) * (popularity + 1)\<close>;
  every other AUR record, be it that a metric is missing or that it is present with
  another type, and every repository record have the key 1. The renderer walks the
  records in an order that is a rearrangement of the input, descending in the key,
  with the records of each key value in their input order; in quiet mode the output
  is the list of their names in that order.
\<close>

theorem search_results_ordered_by_key:
  "(\<forall>p v q. numvotes p = PyInt v \<and> popularity p = PyFloat q \<longrightarrow>
       get_sort_key e (Aur p) =
         float_value e (int_mul_float e (v + 1) (float_add_int e q 1))) \<and>
   (\<forall>p. (\<forall>v. numvotes p \<noteq> PyInt v) \<or> (\<forall>q. popularity p \<noteq> PyFloat q) \<longrightarrow>
       get_sort_key e (Aur p) = 1) \<and>
   (\<forall>p. get_sort_key e (Alpm p) = 1) \<and>
   print_package_search_results e packages local_pkgs_versions enumerated enumerate_from =
     concat (map (search_lines e local_pkgs_versions enumerated enumerate_from)
               (enumerate 0 (sorted_packages e packages))) \<and>
   (quiet e \<longrightarrow>
      print_package_search_results e packages local_pkgs_versions enumerated enumerate_from =
        map package_name (sorted_packages e packages)) \<and>
   mset (sorted_packages e packages) = mset packages \<and>
   sorted_wrt (\<lambda>a b. get_sort_key e a \<ge> get_sort_key e b) (sorted_packages e packages) \<and>
   (\<forall>k. filter (\<lambda>p. get_sort_key e p = k) (sorted_packages e packages) =
        filter (\<lambda>p. get_sort_key e p = k) packages)"
proof (intro conjI allI impI)
  fix p :: "'a AURPackageInfo" and v q
  assume "numvotes p = PyInt v \<and> popularity p = PyFloat q"
  then show "get_sort_key e (Aur p) =
      float_value e (int_mul_float e (v + 1) (float_add_int e q 1))"
    by simp
next
  fix p :: "'a AURPackageInfo"
  assume "(\<forall>v. numvotes p \<noteq> PyInt v) \<or> (\<forall>q. popularity p \<noteq> PyFloat q)"
  then show "get_sort_key e (Aur p) = 1" by (rule get_sort_key_neutral)
next
  fix p :: Package show "get_sort_key e (Alpm p) = 1" by simp
next
  show "print_package_search_results e packages local_pkgs_versions enumerated enumerate_from =
     concat (map (search_lines e local_pkgs_versions enumerated enumerate_from)
               (enumerate 0 (sorted_packages e packages)))"
    by (simp add: print_package_search_results_def)
next
  assume "quiet e"
  then show "print_package_search_results e packages local_pkgs_versions enumerated
      enumerate_from = map package_name (sorted_packages e packages)"
    by (rule quiet_output)
next
  show "mset (sorted_packages e packages) = mset packages" by (rule mset_sorted_packages)
next
  show "sorted_wrt (\<lambda>a b. get_sort_key e a \<ge> get_sort_key e b) (sorted_packages e packages)"
    by (rule sorted_packages_descending)
next
  fix k
  show "filter (\<lambda>p. get_sort_key e p = k) (sorted_packages e packages) =
        filter (\<lambda>p. get_sort_key e p = k) packages"
    by (rule sorted_packages_stable)
qed

theorem search_results_ordered_by_key_witness:
  "get_sort_key sample_env (sample_aur ''c'' (PyInt 10) (PyFloat 2)) = 33 \<and>
   filter (\<lambda>p. get_sort_key sample_env p = 1)
     (sorted_packages sample_env
        [sample_alpm ''core'' ''a'', sample_aur ''b'' (PyInt 0) (PyFloat 0),
         sample_aur ''c'' (PyInt 10) (PyFloat 2), sample_aur ''d'' PyNone (PyFloat 5),
         sample_alpm ''extra'' ''e'']) =
     [sample_alpm ''core'' ''a'', sample_aur ''b'' (PyInt 0) (PyFloat 0),
      sample_aur ''d'' PyNone (PyFloat 5), sample_alpm ''extra'' ''e'']"
  using search_results_ordered_by_key
    [of sample_env "[sample_alpm ''core'' ''a'', sample_aur ''b'' (PyInt 0) (PyFloat 0),
        sample_aur ''c'' (PyInt 10) (PyFloat 2), sample_aur ''d'' PyNone (PyFloat 5),
        sample_alpm ''extra'' ''e'']" Map.empty False 0]
  by (simp add: sample_alpm_def sample_aur_def sample_env_def)

theorem integer_popularity_neutral_key_counterexample:
  "numvotes \<lparr>aur_name = ''f'', aur_version = ''1.0'', aur_desc = ''a package'',
             aur_groups = [], numvotes = PyInt 5, popularity = PyInt 0,
             outofdate = None\<rparr> \<noteq> (PyNone :: int py_number) \<and>
   popularity \<lparr>aur_name = ''f'', aur_version = ''1.0'', aur_desc = ''a package'',
               aur_groups = [], numvotes = PyInt 5, popularity = PyInt 0,
               outofdate = None\<rparr> \<noteq> (PyNone :: int py_number) \<and>
   get_sort_key sample_env (sample_aur ''f'' (PyInt 5) (PyInt 0)) = 1 \<and>
   get_sort_key sample_env (sample_aur ''f'' (PyInt 5) (PyInt 0)) \<noteq> (5 + 1) * (0 + 1) \<and>
   sorted_packages sample_env
     [sample_alpm ''core'' ''a'', sample_aur ''f'' (PyInt 5) (PyInt 0)] =
     [sample_alpm ''core'' ''a'', sample_aur ''f'' (PyInt 5) (PyInt 0)]"
  by (simp add: sample_alpm_def sample_aur_def sorted_packages_def)

section \<open>The composite report\<close>









lemma sequence_err_map_Inr:
  "\<forall>x\<in>set xs. f x = Inr (g x) \<Longrightarrow> sequence_err (map f xs) = Inr (map g xs)"
  by (induction xs) simp_all










end
